theory Spec2Isabelle
  imports Main
begin

section \<open>Python values seen by the Kato status tracker\<close>

text \<open>
  The tracker of \<^verbatim>\<open>spinnaker_testing/kato.py\<close> works on the values that Python's
  \<^verbatim>\<open>json\<close> module decodes: \<^verbatim>\<open>None\<close>, booleans, integers, floats, strings, lists and
  dictionaries with string keys. A float is kept as a finite value \<open>m * 2 ^ e\<close>, an
  infinity or a NaN (the decoder accepts the literals \<^verbatim>\<open>Infinity\<close> and \<^verbatim>\<open>NaN\<close>); only its
  truth value matters below. A dictionary is an association list read with \<open>map_of\<close>.
\<close>

datatype pyfloat = Finite int int | Infinity bool | NaN

datatype json =
    JNull
  | JBool bool
  | JInt int
  | JFloat pyfloat
  | JStr string
  | JArr "json list"
  | JObj "(string \<times> json) list"

text \<open>The exceptions that occur in the tracker's code paths.\<close>

datatype pyerr = KeyError string | TypeError | ValueError | AttributeError | RecursionError

text \<open>Python's truth value of a decoded value, as tested by \<^verbatim>\<open>if x:\<close> and \<^verbatim>\<open>not x\<close>.\<close>

fun truthy :: "json \<Rightarrow> bool" where
  "truthy JNull = False"
| "truthy (JBool b) = b"
| "truthy (JInt n) = (n \<noteq> 0)"
| "truthy (JFloat (Finite m e)) = (m \<noteq> 0)"
| "truthy (JFloat (Infinity s)) = True"
| "truthy (JFloat NaN) = True"
| "truthy (JStr s) = (s \<noteq> [])"
| "truthy (JArr xs) = (xs \<noteq> [])"
| "truthy (JObj kvs) = (kvs \<noteq> [])"

text \<open>
  \<^verbatim>\<open>x[key]\<close> with a string key: a dictionary raises \<^verbatim>\<open>KeyError\<close> on a missing key; every
  other decoded value raises \<^verbatim>\<open>TypeError\<close> (a list or a string wants integer indices,
  the others are not subscriptable).
\<close>

fun subscript :: "json \<Rightarrow> string \<Rightarrow> pyerr + json" where
  "subscript (JObj kvs) key =
     (case map_of kvs key of None \<Rightarrow> Inl (KeyError key) | Some v \<Rightarrow> Inr v)"
| "subscript JNull key = Inl TypeError"
| "subscript (JBool b) key = Inl TypeError"
| "subscript (JInt n) key = Inl TypeError"
| "subscript (JFloat f) key = Inl TypeError"
| "subscript (JStr s) key = Inl TypeError"
| "subscript (JArr xs) key = Inl TypeError"

text \<open>\<^verbatim>\<open>isinstance(doc, dict)\<close>.\<close>

fun isinstance_dict :: "json \<Rightarrow> bool" where
  "isinstance_dict (JObj kvs) = True"
| "isinstance_dict JNull = False"
| "isinstance_dict (JBool b) = False"
| "isinstance_dict (JInt n) = False"
| "isinstance_dict (JFloat f) = False"
| "isinstance_dict (JStr s) = False"
| "isinstance_dict (JArr xs) = False"

section \<open>The tracker object\<close>

text \<open>
  The attributes of a \<^verbatim>\<open>_KatoStatus\<close> that \<^verbatim>\<open>kato.py\<close> reads or writes. Field
  \<open>attr_x\<close> is the Python attribute \<^verbatim>\<open>self._x\<close>. \<^verbatim>\<open>_finished\<close> only ever holds the
  literals \<^verbatim>\<open>True\<close> and \<^verbatim>\<open>False\<close>; the others hold whatever the documents supply.
\<close>

record kato_status =
  attr_finished :: bool
  attr_failed :: json
  attr_detail_path :: json
  attr_request_id :: json
  attr_current_state :: json
  attr_exception_details :: json
  attr_error :: json

text \<open>
  The initial response handed to the constructor. Decoding its body is the work of the
  standard library, so the response carries the outcome of
  \<^verbatim>\<open>json.JSONDecoder().decode(original_response.output)\<close>: the decoded value, or the
  exception raised (\<^verbatim>\<open>ValueError\<close> for text that is not JSON, \<^verbatim>\<open>TypeError\<close> for an output
  that is not text). \<open>str_of\<close> is \<^verbatim>\<open>str(original_response)\<close>.
\<close>

record http_response =
  decode_output :: "pyerr + json"
  str_of :: string

subsection \<open>Properties\<close>

definition finished :: "kato_status \<Rightarrow> bool" where
  "finished self = attr_finished self"

definition finished_ok :: "kato_status \<Rightarrow> bool" where
  "finished_ok self = (attr_finished self \<and> \<not> truthy (attr_failed self))"

definition timed_out :: "kato_status \<Rightarrow> bool" where
  "timed_out self = False"

subsection \<open>Construction\<close>

text \<open>
  The \<^verbatim>\<open>try\<close> block of \<^verbatim>\<open>__init__\<close>: \<^verbatim>\<open>doc\<close> starts as \<^verbatim>\<open>None\<close>; \<^verbatim>\<open>ValueError\<close> and
  \<^verbatim>\<open>TypeError\<close> are swallowed and leave it so; any other exception propagates.
\<close>

fun try_decode :: "pyerr + json \<Rightarrow> pyerr + json" where
  "try_decode (Inr v) = Inr v"
| "try_decode (Inl ValueError) = Inr JNull"
| "try_decode (Inl TypeError) = Inr JNull"
| "try_decode (Inl (KeyError k)) = Inl (KeyError k)"
| "try_decode (Inl AttributeError) = Inl AttributeError"
| "try_decode (Inl RecursionError) = Inl RecursionError"

text \<open>\<^verbatim>\<open>'Invalid response="{0}"'.format(original_response)\<close>.\<close>

definition invalid_response :: "http_response \<Rightarrow> string" where
  "invalid_response original_response =
     ''Invalid response='' @ [CHR 0x22] @ str_of original_response @ [CHR 0x22]"

text \<open>
  \<^verbatim>\<open>_KatoStatus.__init__\<close>. \<open>base\<close> is the object as the constructor of the base class
  \<^verbatim>\<open>sk.SpinnakerStatus\<close> leaves it. The result is the constructed tracker, or the
  exception that leaves the constructor (then no tracker exists).
\<close>

definition kato_init :: "kato_status \<Rightarrow> http_response \<Rightarrow> pyerr + kato_status" where
  "kato_init base original_response =
     (let self = base\<lparr>attr_finished := False, attr_failed := JBool False\<rparr> in
      case try_decode (decode_output original_response) of
        Inl e \<Rightarrow> Inl e
      | Inr doc \<Rightarrow>
          if isinstance_dict doc then
            (case subscript doc ''resourceUri'' of
               Inl e \<Rightarrow> Inl e
             | Inr uri \<Rightarrow>
                 (case subscript doc ''id'' of
                    Inl e \<Rightarrow> Inl e
                  | Inr rid \<Rightarrow>
                      Inr (self\<lparr>attr_detail_path := uri, attr_request_id := rid\<rparr>)))
          else
            Inr (self\<lparr>attr_error := JStr (invalid_response original_response),
                       attr_finished := True,
                       attr_failed := JBool True,
                       attr_current_state := JStr ''CITEST_INTERNAL_ERROR''\<rparr>))"

subsection \<open>Update from a poll document\<close>

text \<open>
  \<^verbatim>\<open>_KatoStatus._update_response_from_json\<close>. The method mutates the object and may
  raise part of the way through, so the result pairs the exception raised (if any) with
  the object as the method leaves it.
\<close>

definition update_response_from_json :: "kato_status \<Rightarrow> json \<Rightarrow> pyerr option \<times> kato_status" where
  "update_response_from_json self doc =
     (case subscript doc ''status'' of
        Inl e \<Rightarrow> (Some e, self)
      | Inr status \<Rightarrow>
     (case subscript status ''completed'' of
        Inl e \<Rightarrow> (Some e, self)
      | Inr completed \<Rightarrow>
     (case subscript status ''failed'' of
        Inl e \<Rightarrow> (Some e, self)
      | Inr failed \<Rightarrow>
     (case subscript status ''phase'' of
        Inl e \<Rightarrow> (Some e, self)
      | Inr phase \<Rightarrow>
          let self1 = self\<lparr>attr_current_state := phase\<rparr>;
              self2 = self1\<lparr>attr_exception_details := JNull\<rparr>
          in
     (case subscript status ''completed'' of
        Inl e \<Rightarrow> (Some e, self2)
      | Inr c \<Rightarrow>
          let self3 = (if truthy c
                       then self2\<lparr>attr_finished := True, attr_failed := failed\<rparr>
                       else self2)
          in
            if truthy failed then
              (case subscript status ''status'' of
                 Inl e \<Rightarrow> (Some e, self3)
               | Inr detail \<Rightarrow> (None, self3\<lparr>attr_exception_details := detail\<rparr>))
            else (None, self3))))))"

text \<open>
  A caller's polling loop: the documents of successive polls are fed to the update
  method one after the other. A poll whose update raised leaves the object as the
  method left it, and polling goes on.
\<close>

fun polls :: "kato_status \<Rightarrow> json list \<Rightarrow> kato_status" where
  "polls self [] = self"
| "polls self (doc # docs) = polls (snd (update_response_from_json self doc)) docs"

text \<open>
  Modelled from the spec: \<^verbatim>\<open>refresh\<close> of the base class \<^verbatim>\<open>sk.SpinnakerStatus\<close>
  (\<^verbatim>\<open>spinnaker_testing/spinnaker.py\<close>), which is the caller of
  \<^verbatim>\<open>_update_response_from_json\<close> and whose source is not available. The spec: "ignored if
  already terminal (idempotent no-op); otherwise" the update from the document.
\<close>

definition refresh :: "kato_status \<Rightarrow> json \<Rightarrow> pyerr option \<times> kato_status" where
  "refresh self new_document =
     (if finished self then (None, self)
      else update_response_from_json self new_document)"

text \<open>The same polling loop, going through that \<^verbatim>\<open>refresh\<close>.\<close>

fun refreshes :: "kato_status \<Rightarrow> json list \<Rightarrow> kato_status" where
  "refreshes self [] = self"
| "refreshes self (doc # docs) = refreshes (snd (refresh self doc)) docs"

section \<open>Facts about the update method\<close>

lemma update_keeps_identifiers:
  "attr_detail_path (snd (update_response_from_json self doc)) = attr_detail_path self \<and>
   attr_request_id (snd (update_response_from_json self doc)) = attr_request_id self"
  by (simp add: update_response_from_json_def Let_def split: sum.splits)

lemma update_keeps_finished:
  "attr_finished self \<Longrightarrow> attr_finished (snd (update_response_from_json self doc))"
  by (simp add: update_response_from_json_def Let_def split: sum.splits)

text \<open>
  \<^verbatim>\<open>_failed\<close> is assigned only next to \<^verbatim>\<open>_finished = True\<close>, so an unfinished tracker
  still has the \<^verbatim>\<open>False\<close> that the constructor stored.
\<close>

lemma update_failed_only_when_finished:
  assumes "\<not> attr_finished self \<longrightarrow> attr_failed self = JBool False"
  shows "\<not> attr_finished (snd (update_response_from_json self doc)) \<longrightarrow>
         attr_failed (snd (update_response_from_json self doc)) = JBool False"
  using assms by (simp add: update_response_from_json_def Let_def split: sum.splits)

lemma polls_keeps_identifiers:
  "attr_detail_path (polls self docs) = attr_detail_path self \<and>
   attr_request_id (polls self docs) = attr_request_id self"
  by (induction docs arbitrary: self) (simp_all add: update_keeps_identifiers)

lemma polls_failed_only_when_finished:
  "\<not> attr_finished self \<longrightarrow> attr_failed self = JBool False \<Longrightarrow>
   \<not> attr_finished (polls self docs) \<longrightarrow> attr_failed (polls self docs) = JBool False"
proof (induction docs arbitrary: self)
  case Nil
  then show ?case by simp
next
  case (Cons doc docs)
  from Cons.prems
  have "\<not> attr_finished (snd (update_response_from_json self doc)) \<longrightarrow>
        attr_failed (snd (update_response_from_json self doc)) = JBool False"
    by (rule update_failed_only_when_finished)
  then show ?case using Cons.IH by simp
qed

lemma init_failed_only_when_finished:
  "kato_init base original_response = Inr self \<Longrightarrow>
   \<not> attr_finished self \<longrightarrow> attr_failed self = JBool False"
  by (auto simp: kato_init_def Let_def split: sum.splits if_splits)

lemma subscript_isinstance_dict: "subscript doc key = Inr v \<Longrightarrow> isinstance_dict doc"
  by (cases doc) simp_all

lemma init_valid:
  assumes "decode_output original_response = Inr doc"
    and "subscript doc ''resourceUri'' = Inr uri"
    and "subscript doc ''id'' = Inr rid"
  shows "kato_init base original_response =
         Inr (base\<lparr>attr_finished := False, attr_failed := JBool False,
                   attr_detail_path := uri, attr_request_id := rid\<rparr>)"
  using assms subscript_isinstance_dict [OF assms(2)]
  by (simp add: kato_init_def Let_def)

text \<open>
  The update method itself does not look at \<^verbatim>\<open>_finished\<close>: called on a finished
  tracker it still overwrites the current state and the exception details. Only the
  identifiers and \<^verbatim>\<open>_finished = True\<close> are out of its reach. The check that makes a
  refresh of a finished tracker a no-op is the caller's.
\<close>

lemma update_on_finished_tracker:
  "update_response_from_json
     \<lparr>attr_finished = True, attr_failed = JBool False, attr_detail_path = JStr ''/task/1'',
      attr_request_id = JStr ''1'', attr_current_state = JStr ''SUCCEEDED'',
      attr_exception_details = JNull, attr_error = JNull\<rparr>
     (JObj [(''status'', JObj [(''completed'', JBool False), (''failed'', JBool False),
                               (''phase'', JStr ''RUNNING'')])])
   = (None,
      \<lparr>attr_finished = True, attr_failed = JBool False, attr_detail_path = JStr ''/task/1'',
       attr_request_id = JStr ''1'', attr_current_state = JStr ''RUNNING'',
       attr_exception_details = JNull, attr_error = JNull\<rparr>)"
  by (simp add: update_response_from_json_def)

text \<open>A refresh either does nothing or is the update method.\<close>

lemma refresh_skip_or_update:
  "refresh self doc = (None, self) \<or> refresh self doc = update_response_from_json self doc"
  by (simp add: refresh_def)

lemma refresh_unfinished:
  "\<not> finished self \<Longrightarrow> refresh self doc = update_response_from_json self doc"
  by (simp add: refresh_def)

text \<open>
  So every state reached through refreshes is reached through updates alone, with the
  documents that came after the tracker finished left out.
\<close>

lemma refreshes_are_polls: "\<exists>docs'. refreshes self docs = polls self docs'"
proof (induction docs arbitrary: self)
  case Nil
  have "refreshes self [] = polls self []" by simp
  then show ?case by blast
next
  case (Cons doc docs)
  show ?case
  proof (cases "finished self")
    case True
    then have "refreshes self (doc # docs) = refreshes self docs"
      by (simp add: refresh_def)
    with Cons.IH [of self] show ?thesis by simp
  next
    case False
    from Cons.IH [of "snd (update_response_from_json self doc)"]
    obtain docs' where
      "refreshes (snd (update_response_from_json self doc)) docs
       = polls (snd (update_response_from_json self doc)) docs'"
      by blast
    with False have "refreshes self (doc # docs) = polls self (doc # docs')"
      by (simp add: refresh_def)
    then show ?thesis by blast
  qed
qed

section \<open>Construction\<close>

text \<open>
  C1. Claim: an initial response that decodes to a JSON object without the identifying
  fields \<^verbatim>\<open>resourceUri\<close> and \<^verbatim>\<open>id\<close> constructs, without raising, a terminal tracker in
  the internal-error state. The constructor does not do this: for the body \<^verbatim>\<open>{}\<close> the
  test \<^verbatim>\<open>isinstance(doc, dict)\<close> succeeds, \<^verbatim>\<open>doc['resourceUri']\<close> raises \<^verbatim>\<open>KeyError\<close>, and
  the exception leaves the constructor, so no tracker is made.
\<close>

theorem init_without_identifiers_raises:
  "kato_init base \<lparr>decode_output = Inr (JObj []), str_of = s\<rparr> = Inl (KeyError ''resourceUri'')"
  by (simp add: kato_init_def)




text \<open>
  C7. An initial response that decodes to an object holding \<^verbatim>\<open>resourceUri\<close> and \<^verbatim>\<open>id\<close>
  constructs a tracker that is not finished and not failed, whose detail path and
  request id are those two values. Nothing else is touched: the current state and the
  exception details are as the base class left them, which is the not-yet-polled
  (pending) state.
\<close>

theorem init_valid_is_pending:
  assumes "decode_output original_response = Inr doc"
    and "subscript doc ''resourceUri'' = Inr uri"
    and "subscript doc ''id'' = Inr rid"
  shows "\<exists>self. kato_init base original_response = Inr self
           \<and> \<not> finished self
           \<and> attr_failed self = JBool False
           \<and> \<not> finished_ok self
           \<and> attr_detail_path self = uri
           \<and> attr_request_id self = rid
           \<and> attr_current_state self = attr_current_state base
           \<and> attr_exception_details self = attr_exception_details base
           \<and> attr_error self = attr_error base"
  using init_valid [OF assms, of base] by (simp add: finished_def finished_ok_def)

theorem init_valid_is_pending_witness:
  "\<exists>self. kato_init
       \<lparr>attr_finished = True, attr_failed = JNull, attr_detail_path = JNull,
        attr_request_id = JNull, attr_current_state = JNull,
        attr_exception_details = JNull, attr_error = JNull\<rparr>
       \<lparr>decode_output = Inr (JObj [(''id'', JStr ''17''), (''resourceUri'', JStr ''/task/17'')]),
        str_of = ''200''\<rparr> = Inr self
      \<and> \<not> finished self \<and> attr_failed self = JBool False
      \<and> attr_detail_path self = JStr ''/task/17'' \<and> attr_request_id self = JStr ''17''
      \<and> attr_current_state self = JNull"
proof -
  have d: "decode_output
       \<lparr>decode_output = Inr (JObj [(''id'', JStr ''17''), (''resourceUri'', JStr ''/task/17'')]),
        str_of = ''200''\<rparr>
     = Inr (JObj [(''id'', JStr ''17''), (''resourceUri'', JStr ''/task/17'')])"
    by simp
  have u: "subscript (JObj [(''id'', JStr ''17''), (''resourceUri'', JStr ''/task/17'')])
             ''resourceUri'' = Inr (JStr ''/task/17'')"
    by simp
  have i: "subscript (JObj [(''id'', JStr ''17''), (''resourceUri'', JStr ''/task/17'')])
             ''id'' = Inr (JStr ''17'')"
    by simp
  show ?thesis
    using init_valid_is_pending [OF d u i,
      of "\<lparr>attr_finished = True, attr_failed = JNull, attr_detail_path = JNull,
           attr_request_id = JNull, attr_current_state = JNull,
           attr_exception_details = JNull, attr_error = JNull\<rparr>"]
    by auto
qed

section \<open>Refresh and update\<close>

text \<open>
  C2. Once a tracker is finished, a refresh with any document changes nothing: it
  raises nothing and every attribute (finished, failed, current state, exception
  details, detail path, request id) is as before.
\<close>

theorem refresh_finished_is_noop:
  assumes "finished self"
  shows "refresh self new_document = (None, self)"
  using assms by (simp add: refresh_def)

theorem refresh_finished_is_noop_witness:
  "finished
     \<lparr>attr_finished = True, attr_failed = JBool False, attr_detail_path = JStr ''/task/1'',
      attr_request_id = JStr ''1'', attr_current_state = JStr ''SUCCEEDED'',
      attr_exception_details = JNull, attr_error = JNull\<rparr>
   \<and> refresh
     \<lparr>attr_finished = True, attr_failed = JBool False, attr_detail_path = JStr ''/task/1'',
      attr_request_id = JStr ''1'', attr_current_state = JStr ''SUCCEEDED'',
      attr_exception_details = JNull, attr_error = JNull\<rparr>
     (JObj [(''status'', JObj [(''completed'', JBool True), (''failed'', JBool True),
                               (''phase'', JStr ''FAILED''), (''status'', JStr ''boom'')])])
   = (None,
     \<lparr>attr_finished = True, attr_failed = JBool False, attr_detail_path = JStr ''/task/1'',
      attr_request_id = JStr ''1'', attr_current_state = JStr ''SUCCEEDED'',
      attr_exception_details = JNull, attr_error = JNull\<rparr>)"
proof -
  have f: "finished
     \<lparr>attr_finished = True, attr_failed = JBool False, attr_detail_path = JStr ''/task/1'',
      attr_request_id = JStr ''1'', attr_current_state = JStr ''SUCCEEDED'',
      attr_exception_details = JNull, attr_error = JNull\<rparr>"
    by (simp add: finished_def)
  show ?thesis
    using f refresh_finished_is_noop [OF f] by simp
qed

text \<open>
  C4. In every state that a constructed tracker reaches through any sequence of
  updates, a true \<^verbatim>\<open>_failed\<close> implies \<^verbatim>\<open>finished\<close>, and \<^verbatim>\<open>finished_ok\<close> implies
  \<^verbatim>\<open>finished\<close> and a false \<^verbatim>\<open>_failed\<close>. Updates that raise are included, with the
  object as they leave it. A refresh is an update or nothing, so the states reached
  through refreshes are among these.
\<close>

theorem failed_implies_finished:
  assumes "kato_init base original_response = Inr self"
  shows "(truthy (attr_failed (polls self docs)) \<longrightarrow> finished (polls self docs)) \<and>
         (finished_ok (polls self docs) \<longrightarrow>
            finished (polls self docs) \<and> \<not> truthy (attr_failed (polls self docs)))"
proof -
  from assms have "\<not> attr_finished self \<longrightarrow> attr_failed self = JBool False"
    by (rule init_failed_only_when_finished)
  then have "\<not> attr_finished (polls self docs) \<longrightarrow>
             attr_failed (polls self docs) = JBool False"
    by (rule polls_failed_only_when_finished)
  then show ?thesis
    by (auto simp: finished_def finished_ok_def)
qed

theorem failed_implies_finished_witness:
  "kato_init
     \<lparr>attr_finished = False, attr_failed = JNull, attr_detail_path = JNull,
      attr_request_id = JNull, attr_current_state = JNull,
      attr_exception_details = JNull, attr_error = JNull\<rparr>
     \<lparr>decode_output = Inr (JObj [(''id'', JStr ''17''), (''resourceUri'', JStr ''/task/17'')]),
      str_of = ''200''\<rparr>
   = Inr \<lparr>attr_finished = False, attr_failed = JBool False,
          attr_detail_path = JStr ''/task/17'', attr_request_id = JStr ''17'',
          attr_current_state = JNull, attr_exception_details = JNull, attr_error = JNull\<rparr>
   \<and> truthy (attr_failed (polls
        \<lparr>attr_finished = False, attr_failed = JBool False,
         attr_detail_path = JStr ''/task/17'', attr_request_id = JStr ''17'',
         attr_current_state = JNull, attr_exception_details = JNull, attr_error = JNull\<rparr>
        [JObj [(''status'', JObj [(''completed'', JBool False), (''failed'', JBool True),
                                  (''phase'', JStr ''RUNNING''), (''status'', JStr ''retrying'')])],
         JObj [(''status'', JObj [(''completed'', JBool True), (''failed'', JBool True),
                                  (''phase'', JStr ''FAILED'')])]]))
   \<and> finished (polls
        \<lparr>attr_finished = False, attr_failed = JBool False,
         attr_detail_path = JStr ''/task/17'', attr_request_id = JStr ''17'',
         attr_current_state = JNull, attr_exception_details = JNull, attr_error = JNull\<rparr>
        [JObj [(''status'', JObj [(''completed'', JBool False), (''failed'', JBool True),
                                  (''phase'', JStr ''RUNNING''), (''status'', JStr ''retrying'')])],
         JObj [(''status'', JObj [(''completed'', JBool True), (''failed'', JBool True),
                                  (''phase'', JStr ''FAILED'')])]])
   \<and> \<not> finished_ok (polls
        \<lparr>attr_finished = False, attr_failed = JBool False,
         attr_detail_path = JStr ''/task/17'', attr_request_id = JStr ''17'',
         attr_current_state = JNull, attr_exception_details = JNull, attr_error = JNull\<rparr>
        [JObj [(''status'', JObj [(''completed'', JBool False), (''failed'', JBool True),
                                  (''phase'', JStr ''RUNNING''), (''status'', JStr ''retrying'')])],
         JObj [(''status'', JObj [(''completed'', JBool True), (''failed'', JBool True),
                                  (''phase'', JStr ''FAILED'')])]])"
proof -
  have c: "kato_init
     \<lparr>attr_finished = False, attr_failed = JNull, attr_detail_path = JNull,
      attr_request_id = JNull, attr_current_state = JNull,
      attr_exception_details = JNull, attr_error = JNull\<rparr>
     \<lparr>decode_output = Inr (JObj [(''id'', JStr ''17''), (''resourceUri'', JStr ''/task/17'')]),
      str_of = ''200''\<rparr>
   = Inr \<lparr>attr_finished = False, attr_failed = JBool False,
          attr_detail_path = JStr ''/task/17'', attr_request_id = JStr ''17'',
          attr_current_state = JNull, attr_exception_details = JNull, attr_error = JNull\<rparr>"
    by (simp add: kato_init_def)
  have t: "truthy (attr_failed (polls
        \<lparr>attr_finished = False, attr_failed = JBool False,
         attr_detail_path = JStr ''/task/17'', attr_request_id = JStr ''17'',
         attr_current_state = JNull, attr_exception_details = JNull, attr_error = JNull\<rparr>
        [JObj [(''status'', JObj [(''completed'', JBool False), (''failed'', JBool True),
                                  (''phase'', JStr ''RUNNING''), (''status'', JStr ''retrying'')])],
         JObj [(''status'', JObj [(''completed'', JBool True), (''failed'', JBool True),
                                  (''phase'', JStr ''FAILED'')])]]))"
    by (simp add: update_response_from_json_def)
  show ?thesis
    using c t failed_implies_finished [OF c,
      of "[JObj [(''status'', JObj [(''completed'', JBool False), (''failed'', JBool True),
                                  (''phase'', JStr ''RUNNING''), (''status'', JStr ''retrying'')])],
         JObj [(''status'', JObj [(''completed'', JBool True), (''failed'', JBool True),
                                  (''phase'', JStr ''FAILED'')])]]"]
    by (simp add: finished_ok_def)
qed

text \<open>
  C5. A tracker that is not finished receives a poll document whose status object has
  \<^verbatim>\<open>completed\<close> true and \<^verbatim>\<open>failed\<close> true (with its \<^verbatim>\<open>phase\<close>) and carries the failure
  detail under the key \<^verbatim>\<open>status\<close>. The update returns normally and the tracker is
  finished and failed, not \<^verbatim>\<open>finished_ok\<close>, with that detail as exception details. On
  such a tracker a refresh is this update.
\<close>

theorem update_completed_failed:
  assumes "\<not> finished self"
    and "subscript doc ''status'' = Inr status"
    and "subscript status ''completed'' = Inr (JBool True)"
    and "subscript status ''failed'' = Inr (JBool True)"
    and "subscript status ''phase'' = Inr phase"
    and "subscript status ''status'' = Inr detail"
  shows "\<exists>self'. update_response_from_json self doc = (None, self')
           \<and> finished self'
           \<and> attr_failed self' = JBool True
           \<and> \<not> finished_ok self'
           \<and> attr_exception_details self' = detail
           \<and> attr_current_state self' = phase"
  using assms by (simp add: update_response_from_json_def finished_def finished_ok_def)

theorem update_completed_failed_witness:
  "\<not> finished
       \<lparr>attr_finished = False, attr_failed = JBool False,
        attr_detail_path = JStr ''/task/17'', attr_request_id = JStr ''17'',
        attr_current_state = JStr ''RUNNING'', attr_exception_details = JNull,
        attr_error = JNull\<rparr>
   \<and> (\<exists>self'. update_response_from_json
       \<lparr>attr_finished = False, attr_failed = JBool False,
        attr_detail_path = JStr ''/task/17'', attr_request_id = JStr ''17'',
        attr_current_state = JStr ''RUNNING'', attr_exception_details = JNull,
        attr_error = JNull\<rparr>
       (JObj [(''status'', JObj [(''completed'', JBool True), (''failed'', JBool True),
                                 (''phase'', JStr ''FAILED''),
                                 (''status'', JStr ''quota exceeded'')])])
       = (None, self')
      \<and> finished self' \<and> attr_failed self' = JBool True \<and> \<not> finished_ok self'
      \<and> attr_exception_details self' = JStr ''quota exceeded'')"
proof -
  have n: "\<not> finished
       \<lparr>attr_finished = False, attr_failed = JBool False,
        attr_detail_path = JStr ''/task/17'', attr_request_id = JStr ''17'',
        attr_current_state = JStr ''RUNNING'', attr_exception_details = JNull,
        attr_error = JNull\<rparr>"
    by (simp add: finished_def)
  have s: "subscript
       (JObj [(''status'', JObj [(''completed'', JBool True), (''failed'', JBool True),
                                 (''phase'', JStr ''FAILED''),
                                 (''status'', JStr ''quota exceeded'')])])
       ''status''
     = Inr (JObj [(''completed'', JBool True), (''failed'', JBool True),
                  (''phase'', JStr ''FAILED''), (''status'', JStr ''quota exceeded'')])"
    by simp
  have c: "subscript (JObj [(''completed'', JBool True), (''failed'', JBool True),
                  (''phase'', JStr ''FAILED''), (''status'', JStr ''quota exceeded'')])
             ''completed'' = Inr (JBool True)"
    by simp
  have f: "subscript (JObj [(''completed'', JBool True), (''failed'', JBool True),
                  (''phase'', JStr ''FAILED''), (''status'', JStr ''quota exceeded'')])
             ''failed'' = Inr (JBool True)"
    by simp
  have p: "subscript (JObj [(''completed'', JBool True), (''failed'', JBool True),
                  (''phase'', JStr ''FAILED''), (''status'', JStr ''quota exceeded'')])
             ''phase'' = Inr (JStr ''FAILED'')"
    by simp
  have d: "subscript (JObj [(''completed'', JBool True), (''failed'', JBool True),
                  (''phase'', JStr ''FAILED''), (''status'', JStr ''quota exceeded'')])
             ''status'' = Inr (JStr ''quota exceeded'')"
    by simp
  show ?thesis
    using n update_completed_failed [OF n s c f p d] by blast
qed

text \<open>
  C6. A tracker that is not finished receives a poll document whose status object has
  \<^verbatim>\<open>completed\<close> true and \<^verbatim>\<open>failed\<close> false (with its \<^verbatim>\<open>phase\<close>). The update returns
  normally and the tracker is finished and \<^verbatim>\<open>finished_ok\<close>, with the exception details
  cleared to \<^verbatim>\<open>None\<close>.
\<close>

theorem update_completed_ok:
  assumes "\<not> finished self"
    and "subscript doc ''status'' = Inr status"
    and "subscript status ''completed'' = Inr (JBool True)"
    and "subscript status ''failed'' = Inr (JBool False)"
    and "subscript status ''phase'' = Inr phase"
  shows "\<exists>self'. update_response_from_json self doc = (None, self')
           \<and> finished self'
           \<and> finished_ok self'
           \<and> attr_failed self' = JBool False
           \<and> attr_exception_details self' = JNull
           \<and> attr_current_state self' = phase"
  using assms by (simp add: update_response_from_json_def finished_def finished_ok_def)

theorem update_completed_ok_witness:
  "\<not> finished
       \<lparr>attr_finished = False, attr_failed = JBool False,
        attr_detail_path = JStr ''/task/17'', attr_request_id = JStr ''17'',
        attr_current_state = JStr ''RUNNING'', attr_exception_details = JStr ''retrying'',
        attr_error = JNull\<rparr>
   \<and> (\<exists>self'. update_response_from_json
       \<lparr>attr_finished = False, attr_failed = JBool False,
        attr_detail_path = JStr ''/task/17'', attr_request_id = JStr ''17'',
        attr_current_state = JStr ''RUNNING'', attr_exception_details = JStr ''retrying'',
        attr_error = JNull\<rparr>
       (JObj [(''status'', JObj [(''completed'', JBool True), (''failed'', JBool False),
                                 (''phase'', JStr ''SUCCEEDED'')])])
       = (None, self')
      \<and> finished self' \<and> finished_ok self' \<and> attr_exception_details self' = JNull)"
proof -
  have n: "\<not> finished
       \<lparr>attr_finished = False, attr_failed = JBool False,
        attr_detail_path = JStr ''/task/17'', attr_request_id = JStr ''17'',
        attr_current_state = JStr ''RUNNING'', attr_exception_details = JStr ''retrying'',
        attr_error = JNull\<rparr>"
    by (simp add: finished_def)
  have s: "subscript
       (JObj [(''status'', JObj [(''completed'', JBool True), (''failed'', JBool False),
                                 (''phase'', JStr ''SUCCEEDED'')])])
       ''status''
     = Inr (JObj [(''completed'', JBool True), (''failed'', JBool False),
                  (''phase'', JStr ''SUCCEEDED'')])"
    by simp
  have c: "subscript (JObj [(''completed'', JBool True), (''failed'', JBool False),
                  (''phase'', JStr ''SUCCEEDED'')]) ''completed'' = Inr (JBool True)"
    by simp
  have f: "subscript (JObj [(''completed'', JBool True), (''failed'', JBool False),
                  (''phase'', JStr ''SUCCEEDED'')]) ''failed'' = Inr (JBool False)"
    by simp
  have p: "subscript (JObj [(''completed'', JBool True), (''failed'', JBool False),
                  (''phase'', JStr ''SUCCEEDED'')]) ''phase'' = Inr (JStr ''SUCCEEDED'')"
    by simp
  show ?thesis
    using n update_completed_ok [OF n s c f p] by blast
qed

text \<open>
  C8. A tracker constructed from a valid initial response keeps the detail path and
  the request id captured at construction through every sequence of updates, whatever
  the documents are and whether or not an update raises.
\<close>

theorem identifiers_never_change:
  assumes "decode_output original_response = Inr doc"
    and "subscript doc ''resourceUri'' = Inr uri"
    and "subscript doc ''id'' = Inr rid"
  shows "\<exists>self. kato_init base original_response = Inr self
           \<and> attr_detail_path self = uri
           \<and> attr_request_id self = rid
           \<and> attr_detail_path (polls self docs) = uri
           \<and> attr_request_id (polls self docs) = rid"
  using init_valid [OF assms, of base] polls_keeps_identifiers
  by simp

theorem identifiers_never_change_witness:
  "\<exists>self. kato_init
       \<lparr>attr_finished = False, attr_failed = JNull, attr_detail_path = JNull,
        attr_request_id = JNull, attr_current_state = JNull,
        attr_exception_details = JNull, attr_error = JNull\<rparr>
       \<lparr>decode_output = Inr (JObj [(''id'', JStr ''17''), (''resourceUri'', JStr ''/task/17'')]),
        str_of = ''200''\<rparr> = Inr self
      \<and> attr_detail_path (polls self
           [JObj [(''status'', JObj [(''completed'', JBool True), (''failed'', JBool False),
                                     (''phase'', JStr ''SUCCEEDED'')])],
            JArr []]) = JStr ''/task/17''
      \<and> attr_request_id (polls self
           [JObj [(''status'', JObj [(''completed'', JBool True), (''failed'', JBool False),
                                     (''phase'', JStr ''SUCCEEDED'')])],
            JArr []]) = JStr ''17''"
proof -
  have d: "decode_output
       \<lparr>decode_output = Inr (JObj [(''id'', JStr ''17''), (''resourceUri'', JStr ''/task/17'')]),
        str_of = ''200''\<rparr>
     = Inr (JObj [(''id'', JStr ''17''), (''resourceUri'', JStr ''/task/17'')])"
    by simp
  have u: "subscript (JObj [(''id'', JStr ''17''), (''resourceUri'', JStr ''/task/17'')])
             ''resourceUri'' = Inr (JStr ''/task/17'')"
    by simp
  have i: "subscript (JObj [(''id'', JStr ''17''), (''resourceUri'', JStr ''/task/17'')])
             ''id'' = Inr (JStr ''17'')"
    by simp
  show ?thesis
    using identifiers_never_change [OF d u i,
      of "\<lparr>attr_finished = False, attr_failed = JNull, attr_detail_path = JNull,
           attr_request_id = JNull, attr_current_state = JNull,
           attr_exception_details = JNull, attr_error = JNull\<rparr>"
         "[JObj [(''status'', JObj [(''completed'', JBool True), (''failed'', JBool False),
                                     (''phase'', JStr ''SUCCEEDED'')])],
            JArr []]"]
    by blast
qed

text \<open>
  C9. \<^verbatim>\<open>timed_out\<close> is false in every state: on any tracker, after any sequence of
  updates.
\<close>

theorem timed_out_never: "timed_out (polls self docs) = False"
  by (simp add: timed_out_def)

text \<open>
  C10. A constructed tracker that is still unfinished after any sequence of updates
  receives a poll document whose status object has \<^verbatim>\<open>completed\<close> false and \<^verbatim>\<open>failed\<close>
  true (with its \<^verbatim>\<open>phase\<close>) and carries failure detail under the key \<^verbatim>\<open>status\<close>. The
  update returns normally; the tracker stays unfinished and \<^verbatim>\<open>_failed\<close> stays false, yet
  the exception details become that detail.
\<close>

theorem update_failed_not_completed:
  assumes "kato_init base original_response = Inr self0"
    and "\<not> finished (polls self0 docs)"
    and "subscript doc ''status'' = Inr status"
    and "subscript status ''completed'' = Inr (JBool False)"
    and "subscript status ''failed'' = Inr (JBool True)"
    and "subscript status ''phase'' = Inr phase"
    and "subscript status ''status'' = Inr detail"
  shows "\<exists>self'. update_response_from_json (polls self0 docs) doc = (None, self')
           \<and> \<not> finished self'
           \<and> attr_failed self' = JBool False
           \<and> \<not> finished_ok self'
           \<and> attr_exception_details self' = detail
           \<and> attr_current_state self' = phase"
proof -
  from assms(1) have "\<not> attr_finished self0 \<longrightarrow> attr_failed self0 = JBool False"
    by (rule init_failed_only_when_finished)
  then have "\<not> attr_finished (polls self0 docs) \<longrightarrow>
             attr_failed (polls self0 docs) = JBool False"
    by (rule polls_failed_only_when_finished)
  with assms(2) have "attr_failed (polls self0 docs) = JBool False"
    by (simp add: finished_def)
  with assms(2-7) show ?thesis
    by (simp add: update_response_from_json_def finished_def finished_ok_def)
qed

theorem update_failed_not_completed_witness:
  "\<exists>self'. update_response_from_json
       (polls
         \<lparr>attr_finished = False, attr_failed = JBool False,
          attr_detail_path = JStr ''/task/17'', attr_request_id = JStr ''17'',
          attr_current_state = JNull, attr_exception_details = JNull, attr_error = JNull\<rparr>
         [JObj [(''status'', JObj [(''completed'', JBool False), (''failed'', JBool False),
                                   (''phase'', JStr ''RUNNING'')])]])
       (JObj [(''status'', JObj [(''completed'', JBool False), (''failed'', JBool True),
                                 (''phase'', JStr ''RUNNING''),
                                 (''status'', JStr ''retrying'')])])
       = (None, self')
      \<and> \<not> finished self' \<and> attr_failed self' = JBool False
      \<and> attr_exception_details self' = JStr ''retrying''"
proof -
  have c: "kato_init
     \<lparr>attr_finished = False, attr_failed = JNull, attr_detail_path = JNull,
      attr_request_id = JNull, attr_current_state = JNull,
      attr_exception_details = JNull, attr_error = JNull\<rparr>
     \<lparr>decode_output = Inr (JObj [(''id'', JStr ''17''), (''resourceUri'', JStr ''/task/17'')]),
      str_of = ''200''\<rparr>
   = Inr \<lparr>attr_finished = False, attr_failed = JBool False,
          attr_detail_path = JStr ''/task/17'', attr_request_id = JStr ''17'',
          attr_current_state = JNull, attr_exception_details = JNull, attr_error = JNull\<rparr>"
    by (simp add: kato_init_def)
  have n: "\<not> finished (polls
         \<lparr>attr_finished = False, attr_failed = JBool False,
          attr_detail_path = JStr ''/task/17'', attr_request_id = JStr ''17'',
          attr_current_state = JNull, attr_exception_details = JNull, attr_error = JNull\<rparr>
         [JObj [(''status'', JObj [(''completed'', JBool False), (''failed'', JBool False),
                                   (''phase'', JStr ''RUNNING'')])]])"
    by (simp add: update_response_from_json_def finished_def)
  have s: "subscript
       (JObj [(''status'', JObj [(''completed'', JBool False), (''failed'', JBool True),
                                 (''phase'', JStr ''RUNNING''),
                                 (''status'', JStr ''retrying'')])])
       ''status''
     = Inr (JObj [(''completed'', JBool False), (''failed'', JBool True),
                  (''phase'', JStr ''RUNNING''), (''status'', JStr ''retrying'')])"
    by simp
  have k: "subscript (JObj [(''completed'', JBool False), (''failed'', JBool True),
                  (''phase'', JStr ''RUNNING''), (''status'', JStr ''retrying'')])
             ''completed'' = Inr (JBool False)"
    by simp
  have f: "subscript (JObj [(''completed'', JBool False), (''failed'', JBool True),
                  (''phase'', JStr ''RUNNING''), (''status'', JStr ''retrying'')])
             ''failed'' = Inr (JBool True)"
    by simp
  have p: "subscript (JObj [(''completed'', JBool False), (''failed'', JBool True),
                  (''phase'', JStr ''RUNNING''), (''status'', JStr ''retrying'')])
             ''phase'' = Inr (JStr ''RUNNING'')"
    by simp
  have d: "subscript (JObj [(''completed'', JBool False), (''failed'', JBool True),
                  (''phase'', JStr ''RUNNING''), (''status'', JStr ''retrying'')])
             ''status'' = Inr (JStr ''retrying'')"
    by simp
  show ?thesis
    using update_failed_not_completed [OF c n s k f p d] by blast
qed

end
